theory Spec2Isabelle
  imports Main "HOL-Library.Sublist"
begin

section \<open>JavaScript values and rendered elements\<close>

text \<open>
  The demo components are functions from their state cells to a tree of elements.
  Text is kept as the bytes of the source file (UTF-8), so a pictograph is a short
  list of characters; the components only concatenate and compare text, which the
  encoding preserves.
\<close>

record event =
  target_value :: string
  target_checked :: bool

datatype jsval =
    JUndefined
  | JNull
  | JBool bool
  | JNum int
  | JStr string
  | JEvent event

fun typeof :: "jsval \<Rightarrow> string" where
  "typeof JUndefined = ''undefined''"
| "typeof JNull = ''object''"
| "typeof (JBool b) = ''boolean''"
| "typeof (JNum n) = ''number''"
| "typeof (JStr s) = ''string''"
| "typeof (JEvent e) = ''object''"

text \<open>Truthiness, as used by \<open>!value\<close> and by \<open>value ? a : b\<close>.\<close>

fun truthy :: "jsval \<Rightarrow> bool" where
  "truthy JUndefined = False"
| "truthy JNull = False"
| "truthy (JBool b) = b"
| "truthy (JNum n) = (n \<noteq> 0)"
| "truthy (JStr s) = (s \<noteq> [])"
| "truthy (JEvent e) = True"

text \<open>
  A property of an element is a string, a boolean, a number, an object literal (the
  \<open>style\<close> property) or an event handler. A handler receives the event and the
  component's state cells as they are when the event is dispatched, and returns the
  cells after the \<open>set...\<close> calls it makes; the values it closes over are those
  of the render that created it.
\<close>

datatype 's pval =
    PStr string
  | PBool bool
  | PNum int
  | PObj "(string \<times> 's pval) list"
  | PFun "event \<Rightarrow> 's \<Rightarrow> 's"

datatype 's node =
    Text string
  | Null
  | Elem string "(string \<times> 's pval) list" "'s node list"

fun props_of :: "'s node \<Rightarrow> (string \<times> 's pval) list" where
  "props_of (Elem tag ps cs) = ps"
| "props_of (Text s) = []"
| "props_of Null = []"

fun children_of :: "'s node \<Rightarrow> 's node list" where
  "children_of (Elem tag ps cs) = cs"
| "children_of (Text s) = []"
| "children_of Null = []"

text \<open>All elements with a given tag, in document order.\<close>

fun find_elems :: "string \<Rightarrow> 's node \<Rightarrow> 's node list" where
  "find_elems t (Text s) = []"
| "find_elems t Null = []"
| "find_elems t (Elem tag ps cs) =
     (if tag = t then [Elem tag ps cs] else []) @ concat (map (find_elems t) cs)"

definition get_prop :: "string \<Rightarrow> 's node \<Rightarrow> 's pval option" where
  "get_prop name el = map_of (props_of el) name"

text \<open>Dispatching an event to the handler installed under a property name.\<close>

definition fire :: "string \<Rightarrow> 's node \<Rightarrow> event \<Rightarrow> 's \<Rightarrow> 's" where
  "fire name el evt st =
     (case get_prop name el of Some (PFun f) \<Rightarrow> f evt st | _ \<Rightarrow> st)"

section \<open>custom-hooks/useToggle.js\<close>

text \<open>
  \<open>toggleVal value val\<close> is the argument of the \<open>setValue\<close> call that
  \<open>toggleVal(val)\<close> makes in a render whose state cell holds \<open>value\<close>, that is,
  the new content of the cell.
\<close>

definition toggleVal :: "jsval \<Rightarrow> jsval \<Rightarrow> jsval" where
  "toggleVal value val =
     (if typeof val \<noteq> ''boolean'' then JBool (\<not> truthy value) else val)"

text \<open>
  The hook owns one state cell, created holding \<open>defaultVal\<close>. In a render in
  which the cell holds \<open>value\<close> it returns the pair \<open>[value, toggleVal]\<close>.
\<close>

definition useToggle_initial :: "jsval \<Rightarrow> jsval" where
  "useToggle_initial defaultVal = defaultVal"

definition useToggle :: "jsval \<Rightarrow> jsval \<times> (jsval \<Rightarrow> jsval)" where
  "useToggle value = (value, toggleVal value)"

section \<open>custom-hooks/CustomHooks.jsx\<close>

record custom_hooks_state =
  value_cell :: jsval
  data_cell :: jsval

definition CustomHooks_initial :: custom_hooks_state where
  "CustomHooks_initial =
     \<lparr>value_cell = useToggle_initial (JBool True),
      data_cell = useToggle_initial (JBool True)\<rparr>"

definition heading :: "custom_hooks_state node" where
  "heading =
     Elem ''h2'' []
       [Text (''Customs Hooks in ReactJs '' @ [CHR 0xF0, CHR 0x9F, CHR 0xAA, CHR 0x9D])]"

definition CustomHooks :: "custom_hooks_state \<Rightarrow> custom_hooks_state node" where
  "CustomHooks st =
     (let (value, toggleValue) = useToggle (value_cell st);
          (data, setData) = useToggle (data_cell st)
      in Elem ''div'' []
           [Elem ''button''
              [(''onClick'', PFun (\<lambda>evt s. s\<lparr>value_cell := toggleValue (JEvent evt)\<rparr>))]
              [Text ''Toggle Heading''],
            Elem ''button''
              [(''onClick'', PFun (\<lambda>evt s. s\<lparr>value_cell := toggleValue (JBool True)\<rparr>))]
              [Text ''Show Heading''],
            Elem ''button''
              [(''onClick'', PFun (\<lambda>evt s. s\<lparr>value_cell := toggleValue (JBool False)\<rparr>))]
              [Text ''Hide Heading''],
            (if truthy value then heading else Null),
            Elem ''hr'' [] [],
            Elem ''button''
              [(''onClick'', PFun (\<lambda>evt s. s\<lparr>data_cell := setData (JEvent evt)\<rparr>))]
              [Text ''Toggle 2nd Heading''],
            Elem ''button''
              [(''onClick'', PFun (\<lambda>evt s. s\<lparr>data_cell := setData (JBool True)\<rparr>))]
              [Text ''Show 2nd Heading''],
            Elem ''button''
              [(''onClick'', PFun (\<lambda>evt s. s\<lparr>data_cell := setData (JBool False)\<rparr>))]
              [Text ''Hide 2nd Heading''],
            (if truthy data then Elem ''h2'' [] [Text ''Second Heading..''] else Null)])"

text \<open>
  Clicking the \<open>i\<close>-th button of the rendered component: the handler of the current
  render is applied to the current cells.
\<close>

definition click_button :: "nat \<Rightarrow> event \<Rightarrow> custom_hooks_state \<Rightarrow> custom_hooks_state" where
  "click_button i evt st =
     (let buttons = find_elems ''button'' (CustomHooks st)
      in if i < length buttons then fire ''onClick'' (buttons ! i) evt st else st)"

section \<open>InputHandling.jsx\<close>

record input_handling_state =
  skills_cell :: "string list"
  gender_cell :: string
  city_cell :: string

definition InputHandling_initial :: input_handling_state where
  "InputHandling_initial = \<lparr>skills_cell = [], gender_cell = ''Male'', city_cell = ''Kolkata''\<rparr>"

text \<open>\<open>Array.prototype.join\<close> on an array of strings.\<close>

fun join :: "string \<Rightarrow> string list \<Rightarrow> string" where
  "join sep [] = []"
| "join sep [x] = x"
| "join sep (x # y # ys) = x @ sep @ join sep (y # ys)"

text \<open>
  \<open>onHandleChange skills\<close> is the handler created by a render in which the
  \<open>skills\<close> cell holds \<open>skills\<close>. The console output is not modelled.
\<close>

definition onHandleChange ::
  "string list \<Rightarrow> event \<Rightarrow> input_handling_state \<Rightarrow> input_handling_state" where
  "onHandleChange skills evt st =
     (let skill = target_value evt
      in if target_checked evt
         then st\<lparr>skills_cell := skills @ [skill]\<rparr>
         else st\<lparr>skills_cell := filter (\<lambda>s. s \<noteq> skill) skills\<rparr>)"

definition InputHandling :: "input_handling_state \<Rightarrow> input_handling_state node" where
  "InputHandling st =
     (let skills = skills_cell st; gender = gender_cell st; city = city_cell st
      in Elem ''div'' []
           [Elem ''h3'' [] [Text (''Select your SKILLS'' @ [CHR 0xE2, CHR 0x9C, CHR 0x85])],
            Elem ''input''
              [(''type'', PStr ''checkbox''), (''id'', PStr ''nextjs''),
               (''value'', PStr ''NextJs15''), (''onChange'', PFun (onHandleChange skills))] [],
            Elem ''label'' [(''htmlFor'', PStr ''nextjs'')] [Text ''NextJs''],
            Elem ''br'' [] [],
            Elem ''input''
              [(''type'', PStr ''checkbox''), (''id'', PStr ''react''),
               (''value'', PStr ''React19''), (''onChange'', PFun (onHandleChange skills))] [],
            Elem ''label'' [(''htmlFor'', PStr ''react'')] [Text ''React''],
            Elem ''br'' [] [],
            Elem ''input''
              [(''type'', PStr ''checkbox''), (''id'', PStr ''vuejs''),
               (''value'', PStr ''VueJs''), (''onChange'', PFun (onHandleChange skills))] [],
            Elem ''label'' [(''htmlFor'', PStr ''vuejs'')] [Text ''Vue.js''],
            Elem ''br'' [] [],
            Elem ''input''
              [(''type'', PStr ''checkbox''), (''id'', PStr ''nodejs''),
               (''value'', PStr ''NodeJs''), (''onChange'', PFun (onHandleChange skills))] [],
            Elem ''label'' [(''htmlFor'', PStr ''nodejs'')] [Text ''Node.js''],
            Elem ''br'' [] [],
            Elem ''input''
              [(''type'', PStr ''checkbox''), (''id'', PStr ''mongodb''),
               (''value'', PStr ''MongoDB''), (''onChange'', PFun (onHandleChange skills))] [],
            Elem ''label'' [(''htmlFor'', PStr ''mongodb'')] [Text ''MongoDB''],
            Elem ''br'' [] [],
            Elem ''hr'' [] [],
            Elem ''h3'' [] [Text (''Select GENDER '' @ [CHR 0xF0, CHR 0x9F, CHR 0x94, CHR 0x98])],
            Elem ''input''
              [(''type'', PStr ''radio''), (''checked'', PBool (gender = ''Male'')),
               (''value'', PStr ''Male''), (''name'', PStr ''gender''), (''id'', PStr ''male''),
               (''onChange'', PFun (\<lambda>evt s. s\<lparr>gender_cell := target_value evt\<rparr>))] [],
            Elem ''label'' [(''htmlFor'', PStr ''male'')]
              [Text (''Male'' @ [CHR 0xF0, CHR 0x9F, CHR 0x92, CHR 0xAA, CHR 0xF0, CHR 0x9F,
                                 CHR 0x8F, CHR 0xBB, CHR 0xF0, CHR 0x9F, CHR 0x94, CHR 0xA5])],
            Elem ''br'' [] [],
            Elem ''input''
              [(''type'', PStr ''radio''), (''checked'', PBool (gender = ''Female'')),
               (''value'', PStr ''Female''), (''name'', PStr ''gender''), (''id'', PStr ''female''),
               (''onChange'', PFun (\<lambda>evt s. s\<lparr>gender_cell := target_value evt\<rparr>))] [],
            Elem ''label'' [(''htmlFor'', PStr ''female'')]
              [Text ('' Female'' @ [CHR 0xE2, CHR 0x99, CHR 0x80, CHR 0xEF, CHR 0xB8, CHR 0x8F,
                                    CHR 0xF0, CHR 0x9F, CHR 0x8D, CHR 0xBD, CHR 0xEF, CHR 0xB8,
                                    CHR 0x8F])],
            Elem ''br'' [] [],
            Elem ''input''
              [(''type'', PStr ''radio''), (''checked'', PBool (gender = ''Other'')),
               (''value'', PStr ''Other''), (''name'', PStr ''gender''), (''id'', PStr ''other''),
               (''onChange'', PFun (\<lambda>evt s. s\<lparr>gender_cell := target_value evt\<rparr>))] [],
            Elem ''label'' [(''htmlFor'', PStr ''other'')]
              [Text ('' Other'' @ [CHR 0xF0, CHR 0x9F, CHR 0x8F, CHR 0xB3, CHR 0xEF, CHR 0xB8,
                                   CHR 0x8F, CHR 0xE2, CHR 0x80, CHR 0x8D, CHR 0xF0, CHR 0x9F,
                                   CHR 0x8C, CHR 0x88, CHR 0xF0, CHR 0x9F, CHR 0x92, CHR 0x85,
                                   CHR 0xF0, CHR 0x9F, CHR 0x8F, CHR 0xBB])],
            Elem ''hr'' [] [],
            Elem ''br'' [] [],
            Elem ''h3'' [] [Text (''Select CITY'' @ [CHR 0xF0, CHR 0x9F, CHR 0x93, CHR 0x8D])],
            Elem ''select''
              [(''defaultValue'', PStr ''Kolkata''),
               (''onChange'', PFun (\<lambda>evt s. s\<lparr>city_cell := target_value evt\<rparr>))]
              [Elem ''option'' [(''value'', PStr ''Kolkata'')] [Text ''Kolkata''],
               Elem ''option'' [(''value'', PStr ''Hyderabad'')] [Text ''Hyderabad''],
               Elem ''option'' [(''value'', PStr ''Delhi'')] [Text ''Delhi''],
               Elem ''option'' [(''value'', PStr ''Chennai'')] [Text ''Chennai''],
               Elem ''option'' [(''value'', PStr ''Pune'')] [Text ''Pune'']],
            Elem ''hr'' [] [],
            Elem ''br'' [] [],
            Elem ''h2'' [] [Text ''Skills: '', Text (join '', '' skills)],
            Elem ''h2'' [] [Text ''Gender : '', Text gender],
            Elem ''h2'' [] [Text ''City: '', Text city]])"

text \<open>The checkboxes of a rendered tree, and the text of the label attached to one.\<close>

definition checkboxes :: "'s node \<Rightarrow> 's node list" where
  "checkboxes tree =
     filter (\<lambda>el. get_prop ''type'' el = Some (PStr ''checkbox'')) (find_elems ''input'' tree)"

fun text_of :: "'s node \<Rightarrow> string" where
  "text_of (Text s) = s"
| "text_of Null = []"
| "text_of (Elem tag ps cs) = concat (map text_of cs)"

definition label_for :: "'s node \<Rightarrow> 's node \<Rightarrow> string list" where
  "label_for tree box =
     map text_of
       (filter (\<lambda>el. get_prop ''htmlFor'' el = get_prop ''id'' box) (find_elems ''label'' tree))"

text \<open>
  The user ticks or unticks the \<open>i\<close>-th checkbox: the browser dispatches a change
  event whose target carries the box's \<open>value\<close> attribute and its new checked state.
\<close>

definition change_checkbox :: "nat \<Rightarrow> bool \<Rightarrow> input_handling_state \<Rightarrow> input_handling_state" where
  "change_checkbox i now_checked st =
     (let boxes = checkboxes (InputHandling st)
      in if i < length boxes
         then (case get_prop ''value'' (boxes ! i) of
                 Some (PStr v) \<Rightarrow>
                   fire ''onChange'' (boxes ! i)
                     \<lparr>target_value = v, target_checked = now_checked\<rparr> st
               | _ \<Rightarrow> st)
         else st)"

section \<open>The useFetch hook of the custom-hooks tutorial\<close>

text \<open>
  A promise settles fulfilled with a value or rejected with an error object. A
  nullable cell is an \<open>option\<close>: \<open>None\<close> is \<open>null\<close>.
\<close>

record js_error =
  message :: string

datatype 'a settled = Fulfilled 'a | Rejected js_error

record 'j response =
  ok :: bool
  json :: "'j option settled"

record 'j use_fetch_state =
  data :: "'j option"
  error :: "string option"
  loading :: bool

definition useFetch_initial :: "'j use_fetch_state" where
  "useFetch_initial = \<lparr>data = None, error = None, loading = True\<rparr>"

text \<open>
  The \<open>try\<close> block of \<open>fetchData\<close>: \<open>Inl\<close> is the error thrown out of it,
  \<open>Inr\<close> the cells after it ran to its end.
\<close>

definition fetchData_try ::
  "'j response settled \<Rightarrow> 'j use_fetch_state \<Rightarrow> js_error + 'j use_fetch_state" where
  "fetchData_try fetched st =
     (case fetched of
        Rejected e \<Rightarrow> Inl e
      | Fulfilled response \<Rightarrow>
          if \<not> ok response then Inl \<lparr>message = ''Network response was not ok''\<rparr>
          else (case json response of
                  Rejected e \<Rightarrow> Inl e
                | Fulfilled result \<Rightarrow> Inr (st\<lparr>data := result\<rparr>)))"

text \<open>\<open>try\<close>, then \<open>catch\<close>, then \<open>finally\<close>.\<close>

definition fetchData :: "'j response settled \<Rightarrow> 'j use_fetch_state \<Rightarrow> 'j use_fetch_state" where
  "fetchData fetched st =
     (let st' = (case fetchData_try fetched st of
                   Inl err \<Rightarrow> st\<lparr>error := Some (message err)\<rparr>
                 | Inr st'' \<Rightarrow> st'')
      in st'\<lparr>loading := False\<rparr>)"

text \<open>
  The effect depends on \<open>url\<close>: it calls \<open>fetchData\<close> after the first render and
  again after every render in which \<open>url\<close> has changed. \<open>useFetch\<close> runs the hook
  through the outcomes of these calls, oldest first.
\<close>

definition useFetch :: "'j response settled list \<Rightarrow> 'j use_fetch_state" where
  "useFetch outcomes = foldl (\<lambda>st fetched. fetchData fetched st) useFetch_initial outcomes"

section \<open>PropsTask/DigitalClock.jsx\<close>

text \<open>
  The window's interval timers. A callback receives what
  \<open>new Date().toLocaleTimeString()\<close> returns when it runs, and the component's cells.
\<close>

record clock_state =
  currTime :: string

record timer =
  handle :: nat
  callback :: "string \<Rightarrow> clock_state \<Rightarrow> clock_state"
  delay :: nat

record window =
  next_handle :: nat
  intervals :: "timer list"

definition setInterval ::
  "(string \<Rightarrow> clock_state \<Rightarrow> clock_state) \<Rightarrow> nat \<Rightarrow> window \<Rightarrow> nat \<times> window" where
  "setInterval cb ms w =
     (next_handle w,
      w\<lparr>next_handle := Suc (next_handle w),
        intervals := intervals w @ [\<lparr>handle = next_handle w, callback = cb, delay = ms\<rparr>]\<rparr>)"

definition clearInterval :: "nat \<Rightarrow> window \<Rightarrow> window" where
  "clearInterval h w = w\<lparr>intervals := filter (\<lambda>t. handle t \<noteq> h) (intervals w)\<rparr>"

text \<open>Handles are never reused while their timer is live.\<close>

definition fresh_handles :: "window \<Rightarrow> bool" where
  "fresh_handles w = list_all (\<lambda>t. handle t < next_handle w) (intervals w)"

text \<open>The effect: it registers the timer and returns its cleanup.\<close>

definition DigitalClock_effect :: "window \<Rightarrow> (window \<Rightarrow> window) \<times> window" where
  "DigitalClock_effect w =
     (let (currTimeInterval, w') = setInterval (\<lambda>now st. st\<lparr>currTime := now\<rparr>) 1000 w
      in (clearInterval currTimeInterval, w'))"

definition DigitalClock :: "string \<Rightarrow> clock_state \<Rightarrow> clock_state node" where
  "DigitalClock clockClr st =
     Elem ''div'' []
       [Elem ''h3'' [] [Text (''Digital Clock '' @ [CHR 0xE2, CHR 0x8C, CHR 0x9A])],
        Elem ''h1'' [(''style'', PObj [(''color'', PStr clockClr)])] [Text (currTime st)]]"

text \<open>
  A mounted clock: its cells and the cleanup its effect returned. Mounting creates the
  cell from the system clock and runs the effect once; the empty dependency array
  keeps later renders from running it again; unmounting runs the cleanup.
\<close>

record mounted_clock =
  cells :: clock_state
  cleanup :: "window \<Rightarrow> window"

definition mount :: "string \<Rightarrow> window \<Rightarrow> mounted_clock \<times> window" where
  "mount now w =
     (let (c, w') = DigitalClock_effect w
      in (\<lparr>cells = \<lparr>currTime = now\<rparr>, cleanup = c\<rparr>, w'))"

definition unmount :: "mounted_clock \<Rightarrow> window \<Rightarrow> window" where
  "unmount m w = cleanup m w"

text \<open>
  What happens between mounting and unmounting: the timer with a given handle comes
  due (nothing happens if no such timer is registered), or the component is rendered
  again.
\<close>

datatype clock_event = TimerDue nat string | Rerender string

fun clock_step :: "mounted_clock \<times> window \<Rightarrow> clock_event \<Rightarrow> mounted_clock \<times> window" where
  "clock_step (m, w) (TimerDue h now) =
     (case find (\<lambda>t. handle t = h) (intervals w) of
        None \<Rightarrow> (m, w)
      | Some t \<Rightarrow> (m\<lparr>cells := callback t now (cells m)\<rparr>, w))"
| "clock_step (m, w) (Rerender clockClr) = (m, w)"

definition clock_run :: "mounted_clock \<times> window \<Rightarrow> clock_event list \<Rightarrow> mounted_clock \<times> window" where
  "clock_run mw evs = foldl clock_step mw evs"

section \<open>UseFormStatus.jsx and the useTransition demo\<close>

text \<open>
  Both components have no state cells of their own: \<open>pending\<close> is what the
  framework's hook returns in the render, and the submit handlers only wait and write
  to the console.
\<close>

definition CustomForm :: "bool \<Rightarrow> unit node" where
  "CustomForm pending =
     Elem ''div'' []
       [Elem ''h3'' [] [Text (''Custom Form '' @ [CHR 0xF0, CHR 0x9F, CHR 0x93, CHR 0x83])],
        Elem ''input'' [(''type'', PStr ''text''), (''placeholder'', PStr ''Enter your name'')] [],
        Elem ''br'' [] [],
        Elem ''br'' [] [],
        Elem ''input''
          [(''type'', PStr ''password''), (''placeholder'', PStr ''Enter your password'')] [],
        Elem ''br'' [] [],
        Elem ''br'' [] [],
        Elem ''button'' [(''disabled'', PBool pending), (''type'', PStr ''submit'')]
          [Text (if pending then ''Submitting...'' else ''Submit'')]]"

definition UseFormStatus :: "bool \<Rightarrow> unit node" where
  "UseFormStatus pending =
     Elem ''div'' []
       [Elem ''h2'' [] [Text ''UseFormStatus Hook in ReactJs 19''],
        Elem ''form'' [(''action'', PFun (\<lambda>evt st. st))] [CustomForm pending]]"

definition UseTransition :: "bool \<Rightarrow> unit node" where
  "UseTransition pending =
     Elem ''div'' []
       [Elem ''h3'' []
          [Text (''useTransition( ) - React1'' @ [CHR 0xEF, CHR 0xB8, CHR 0x8F, CHR 0xE2, CHR 0x83,
                 CHR 0xA3] @ ''9'' @ [CHR 0xEF, CHR 0xB8, CHR 0x8F, CHR 0xE2, CHR 0x83, CHR 0xA3])],
        (if pending
         then Elem ''h1'' [] [Text (''LOADING... '' @ [CHR 0xE2, CHR 0x8C, CHR 0x9B])]
         else Null),
        Elem ''button'' [(''disabled'', PBool pending), (''onClick'', PFun (\<lambda>evt st. st))]
          [Text (if pending then ''Submitting...'' else ''Submit'')]]"

text \<open>The \<open>disabled\<close> property and the label of every button of a tree.\<close>

definition button_states :: "'s node \<Rightarrow> ('s pval option) list" where
  "button_states tree = map (get_prop ''disabled'') (find_elems ''button'' tree)"

definition button_labels :: "'s node \<Rightarrow> string list" where
  "button_labels tree = map text_of (find_elems ''button'' tree)"

section \<open>The context demo\<close>

text \<open>
  A component below a provider is a function of the value \<open>useContext(SubjectCtxt)\<close>
  returns in it, which is the value of the nearest provider above it. A provider
  renders no element of its own: it hands its value to its children.
\<close>

definition SubjectCtxt_Provider :: "string \<Rightarrow> (string \<Rightarrow> 's node list) \<Rightarrow> 's node list" where
  "SubjectCtxt_Provider val children = children val"

definition SubjectComp :: "string \<Rightarrow> 's node" where
  "SubjectComp ctxt =
     (let subject = ctxt
      in Elem ''div''
           [(''style'', PObj [(''backgroundColor'', PStr ''gray''), (''padding'', PNum 10),
                              (''color'', PStr ''brown''), (''borderRadius'', PStr ''5px'')])]
           [Elem ''h2'' [] [Text ''Subject Component''],
            Elem ''p'' [] [Text ''Subject:'', Text subject]])"

definition StudentComp :: "string \<Rightarrow> 's node" where
  "StudentComp ctxt =
     Elem ''div''
       [(''style'', PObj [(''backgroundColor'', PStr ''green''), (''padding'', PNum 10),
                          (''color'', PStr ''brown''), (''borderRadius'', PStr ''5px'')])]
       [Elem ''h2'' [] [Text ''Student Component''],
        SubjectComp ctxt]"

definition ClassComp :: "string \<Rightarrow> 's node" where
  "ClassComp ctxt =
     Elem ''div''
       [(''style'', PObj [(''backgroundColor'', PStr ''skyblue''), (''padding'', PNum 10),
                          (''color'', PStr ''brown''), (''borderRadius'', PStr ''5px'')])]
       [Elem ''h2'' [] [Text ''Class Component''],
        StudentComp ctxt]"

text \<open>
  Modelled from the spec: \<open>College.jsx\<close> (imported by ParentCtxt from
  \<open>./College\<close>) is not among the sources. The spec has the provider expose its
  value to descendant components, and ClassComp, StudentComp and SubjectComp are the
  only other components of the demo, so College is taken to render ClassComp in an
  element of its own, with no provider in between.
\<close>

definition College :: "string \<Rightarrow> 's node" where
  "College ctxt = Elem ''div'' [] [ClassComp ctxt]"

record parent_ctxt_state =
  subject_cell :: string

definition ParentCtxt_initial :: parent_ctxt_state where
  "ParentCtxt_initial = \<lparr>subject_cell = []\<rparr>"

definition ParentCtxt :: "parent_ctxt_state \<Rightarrow> parent_ctxt_state node" where
  "ParentCtxt st =
     (let subject = subject_cell st
      in Elem ''div''
           [(''style'', PObj [(''backgroundColor'', PStr ''yellow''), (''padding'', PNum 10),
                              (''color'', PStr ''brown''), (''borderRadius'', PStr ''5px'')])]
           (SubjectCtxt_Provider subject (\<lambda>ctxt.
              [Elem ''select''
                 [(''value'', PStr subject),
                  (''onChange'', PFun (\<lambda>evt s. s\<lparr>subject_cell := target_value evt\<rparr>))]
                 [Elem ''option'' [(''value'', PStr [])] [Text ''Select Subject''],
                  Elem ''option'' [(''value'', PStr ''Mathematics'')] [Text ''Mathematics''],
                  Elem ''option'' [(''value'', PStr ''Science'')] [Text ''Science''],
                  Elem ''option'' [(''value'', PStr ''Social Studies'')] [Text ''Social Studies'']],
               Elem ''h1'' [] [Text ''Context API''],
               Elem ''button''
                 [(''style'', PObj [(''margin'', PStr ''5px'')]),
                  (''onClick'', PFun (\<lambda>evt s. s\<lparr>subject_cell := []\<rparr>))]
                 [Text (''Reset Sub.'' @ [CHR 0xF0, CHR 0x9F, CHR 0xAA, CHR 0x84])],
               College ctxt])))"

text \<open>The user picks an entry of the select, or clicks the reset button.\<close>

definition select_subject :: "string \<Rightarrow> parent_ctxt_state \<Rightarrow> parent_ctxt_state" where
  "select_subject v st =
     (case find_elems ''select'' (ParentCtxt st) of
        sel # _ \<Rightarrow> fire ''onChange'' sel \<lparr>target_value = v, target_checked = False\<rparr> st
      | [] \<Rightarrow> st)"

definition click_reset :: "event \<Rightarrow> parent_ctxt_state \<Rightarrow> parent_ctxt_state" where
  "click_reset evt st =
     (case find_elems ''button'' (ParentCtxt st) of
        b # _ \<Rightarrow> fire ''onClick'' b evt st
      | [] \<Rightarrow> st)"

section \<open>ArrayState.jsx\<close>

record hobby_detail =
  name :: string
  time :: string

record array_state =
  name_cell :: string
  hobbies_cell :: "string list"
  hobbyDetails_cell :: "hobby_detail list"

definition ArrayState_initial :: array_state where
  "ArrayState_initial =
     \<lparr>name_cell = ''Soumadip '' @ [CHR 0xF0, CHR 0x9F, CHR 0x91, CHR 0xA8, CHR 0xF0, CHR 0x9F,
                    CHR 0x8F, CHR 0xBB, CHR 0xE2, CHR 0x80, CHR 0x8D, CHR 0xF0, CHR 0x9F, CHR 0x92,
                    CHR 0xBB],
      hobbies_cell =
        [''Reading '' @ [CHR 0xF0, CHR 0x9F, CHR 0x93, CHR 0x9A],
         ''Coding '' @ [CHR 0xF0, CHR 0x9F, CHR 0x92, CHR 0xBB],
         ''Movies '' @ [CHR 0xF0, CHR 0x9F, CHR 0x8E, CHR 0xA5]],
      hobbyDetails_cell =
        [\<lparr>name = ''Reading'', time = ''Night '' @ [CHR 0xF0, CHR 0x9F, CHR 0x8C, CHR 0x83]\<rparr>,
         \<lparr>name = ''Coding'', time = ''Morning '' @ [CHR 0xF0, CHR 0x9F, CHR 0x8C, CHR 0x84]\<rparr>,
         \<lparr>name = ''Movies'', time = ''Evening '' @ [CHR 0xF0, CHR 0x9F, CHR 0x8C, CHR 0x86]\<rparr>]\<rparr>"

text \<open>
  The assignment \<open>a[a.length - 1] = v\<close>. On an empty array the index is \<open>-1\<close>,
  which is a property name and not an element index: the elements stay as they are.
\<close>

definition assign_last :: "'a \<Rightarrow> 'a list \<Rightarrow> 'a list" where
  "assign_last v a = (if length a = 0 then a else a[length a - 1 := v])"

text \<open>
  \<open>updateLastHobby hobbies\<close> is the function of a render in which the cell holds
  the array \<open>hobbies\<close>: it writes into that array and stores a copy of it.
\<close>

definition updateLastHobby :: "string list \<Rightarrow> string \<Rightarrow> array_state \<Rightarrow> array_state" where
  "updateLastHobby hobbies hobby st =
     (let hobbies' = assign_last hobby hobbies
      in st\<lparr>hobbies_cell := hobbies'\<rparr>)"

section \<open>ObjectState.jsx\<close>

record location =
  city :: string
  country :: string

record details =
  fullName :: string
  age :: int
  location :: location
  skills :: "string list"

record object_state =
  oname_cell :: string
  details_cell :: details

definition ObjectState_initial :: object_state where
  "ObjectState_initial =
     \<lparr>oname_cell = ''Soumadip '' @ [CHR 0xF0, CHR 0x9F, CHR 0x91, CHR 0xA8, CHR 0xF0, CHR 0x9F,
                     CHR 0x8F, CHR 0xBB, CHR 0xE2, CHR 0x80, CHR 0x8D, CHR 0xF0, CHR 0x9F, CHR 0x92,
                     CHR 0xBB],
      details_cell =
        \<lparr>fullName = ''Soumadip Banerjee'',
         age = 29,
         location = \<lparr>city = ''Kolkata'', country = ''India''\<rparr>,
         skills = [''React'', ''JavaScript'', ''Node.js'']\<rparr>\<rparr>"

definition ObjectState :: "object_state \<Rightarrow> object_state node" where
  "ObjectState st =
     (let name = oname_cell st; details = details_cell st
      in Elem ''div'' []
           [Elem ''h2'' [] [Text ''Updating ObjectsP'', Text ''{ }'', Text '' in state[ ].''],
            Elem ''h3'' [] [Text ''Name: '', Text name],
            Elem ''button''
              [(''onClick'', PFun (\<lambda>evt s. s\<lparr>oname_cell := ''Skyy '' @ [CHR 0xF0, CHR 0x9F,
                  CHR 0xA7, CHR 0x9B, CHR 0xF0, CHR 0x9F, CHR 0x8F, CHR 0xBB, CHR 0xE2, CHR 0x80,
                  CHR 0x8D, CHR 0xE2, CHR 0x99, CHR 0x82, CHR 0xEF, CHR 0xB8, CHR 0x8F]\<rparr>))]
              [Text ''Update Name''],
            Elem ''input''
              [(''type'', PStr ''text''), (''placeholder'', PStr ''update name''),
               (''onChange'',
                PFun (\<lambda>evt s. s\<lparr>details_cell := details\<lparr>fullName := target_value evt\<rparr>\<rparr>))] [],
            Elem ''h3'' [] [Text ''fullName: '', Text (fullName details)],
            Elem ''h3'' [] [Text ''City: '', Text (city (location details))],
            Elem ''h3'' [] [Text ''Country: '', Text (country (location details))],
            Elem ''h3'' []
              [Text ''Primary Skill: '',
               (case skills details of [] \<Rightarrow> Null | primary # _ \<Rightarrow> Text primary)]])"

text \<open>The user edits the name input: a change event carrying the input's new text.\<close>

definition change_name_input :: "string \<Rightarrow> object_state \<Rightarrow> object_state" where
  "change_name_input v st =
     (case find_elems ''input'' (ObjectState st) of
        inp # _ \<Rightarrow> fire ''onChange'' inp \<lparr>target_value = v, target_checked = False\<rparr> st
      | [] \<Rightarrow> st)"

section \<open>Properties of useToggle and CustomHooks\<close>

lemma click0: "click_button 0 evt st = st\<lparr>value_cell := toggleVal (value_cell st) (JEvent evt)\<rparr>"
  by (simp add: click_button_def CustomHooks_def useToggle_def Let_def fire_def get_prop_def heading_def)

lemma click1: "click_button (Suc 0) evt st = st\<lparr>value_cell := toggleVal (value_cell st) (JBool True)\<rparr>"
  by (simp add: click_button_def CustomHooks_def useToggle_def Let_def fire_def get_prop_def heading_def)

lemma click2: "click_button 2 evt st = st\<lparr>value_cell := toggleVal (value_cell st) (JBool False)\<rparr>"
  by (simp add: click_button_def CustomHooks_def useToggle_def Let_def fire_def get_prop_def heading_def numeral_2_eq_2)

lemma heading_shown: "heading \<in> set (find_elems ''h2'' (CustomHooks st)) \<longleftrightarrow> truthy (value_cell st)"
  by (simp add: CustomHooks_def useToggle_def Let_def heading_def)

text \<open>
  Claim C1. When the state cell of useToggle holds a boolean \<open>b\<close>, calling the
  returned \<open>toggleVal\<close> with an argument that is not a boolean stores \<open>\<not> b\<close>;
  the Toggle Heading button, whose click handler is \<open>toggleVal\<close> itself and so
  receives the event object, does exactly this; and CustomHooks renders the
  Customs Hooks heading exactly when the stored value is true, before and after
  the click.
\<close>

theorem toggle_button_flips_heading:
  assumes "value_cell st = JBool b" and "typeof val \<noteq> ''boolean''"
  shows "snd (useToggle (JBool b)) val = JBool (\<not> b)
       \<and> value_cell (click_button 0 evt st) = JBool (\<not> b)
       \<and> (heading \<in> set (find_elems ''h2'' (CustomHooks st)) \<longleftrightarrow> b)
       \<and> (heading \<in> set (find_elems ''h2'' (CustomHooks (click_button 0 evt st))) \<longleftrightarrow> \<not> b)"
  using assms by (simp add: click0 heading_shown useToggle_def toggleVal_def)

text \<open>
  The theorem at the initial state of CustomHooks, with a click event.
\<close>

theorem toggle_button_flips_heading_witness:
  "value_cell CustomHooks_initial = JBool True
   \<and> typeof (JEvent \<lparr>target_value = [], target_checked = False\<rparr>) \<noteq> ''boolean''
   \<and> snd (useToggle (JBool True)) (JEvent \<lparr>target_value = [], target_checked = False\<rparr>) = JBool False
   \<and> value_cell (click_button 0 \<lparr>target_value = [], target_checked = False\<rparr> CustomHooks_initial) = JBool False
   \<and> heading \<in> set (find_elems ''h2'' (CustomHooks CustomHooks_initial))
   \<and> heading \<notin> set (find_elems ''h2'' (CustomHooks (click_button 0 \<lparr>target_value = [], target_checked = False\<rparr> CustomHooks_initial)))"
proof -
  have h1: "value_cell CustomHooks_initial = JBool True"
    by (simp add: CustomHooks_initial_def useToggle_initial_def)
  have h2: "typeof (JEvent \<lparr>target_value = [], target_checked = False\<rparr>) \<noteq> ''boolean''"
    by simp
  show ?thesis
    using toggle_button_flips_heading [OF h1 h2, of "\<lparr>target_value = [], target_checked = False\<rparr>"] h1 h2
    by simp
qed

text \<open>
  Claim C8. Calling \<open>toggleVal\<close> with a boolean \<open>b\<close> stores exactly \<open>b\<close>,
  whatever the cell held; so the Show Heading and Hide Heading buttons of CustomHooks
  store true and false, and clicking one of them twice leaves the state that one
  click leaves.
\<close>

theorem toggleVal_boolean_sets_exactly:
  "snd (useToggle v) (JBool b) = JBool b
   \<and> value_cell (click_button 1 evt st) = JBool True
   \<and> value_cell (click_button 2 evt st) = JBool False
   \<and> click_button 1 evt' (click_button 1 evt st) = click_button 1 evt st
   \<and> click_button 2 evt' (click_button 2 evt st) = click_button 2 evt st"
  by (simp add: click1 click2 useToggle_def toggleVal_def)

section \<open>Properties of InputHandling\<close>

lemma checkboxes_InputHandling:
  "checkboxes (InputHandling st) =
     [Elem ''input''
        [(''type'', PStr ''checkbox''), (''id'', PStr ''nextjs''),
         (''value'', PStr ''NextJs15''), (''onChange'', PFun (onHandleChange (skills_cell st)))] [],
      Elem ''input''
        [(''type'', PStr ''checkbox''), (''id'', PStr ''react''),
         (''value'', PStr ''React19''), (''onChange'', PFun (onHandleChange (skills_cell st)))] [],
      Elem ''input''
        [(''type'', PStr ''checkbox''), (''id'', PStr ''vuejs''),
         (''value'', PStr ''VueJs''), (''onChange'', PFun (onHandleChange (skills_cell st)))] [],
      Elem ''input''
        [(''type'', PStr ''checkbox''), (''id'', PStr ''nodejs''),
         (''value'', PStr ''NodeJs''), (''onChange'', PFun (onHandleChange (skills_cell st)))] [],
      Elem ''input''
        [(''type'', PStr ''checkbox''), (''id'', PStr ''mongodb''),
         (''value'', PStr ''MongoDB''), (''onChange'', PFun (onHandleChange (skills_cell st)))] []]"
  by (simp add: checkboxes_def InputHandling_def Let_def get_prop_def)

lemma fire_checkbox:
  "i < 5 \<Longrightarrow> fire ''onChange'' (checkboxes (InputHandling st) ! i) evt st
     = onHandleChange (skills_cell st) evt st"
  by (auto simp add: checkboxes_InputHandling fire_def get_prop_def less_Suc_eq numeral_eq_Suc)

lemma skills_line:
  "find_elems ''h2'' (InputHandling st) ! 0
     = Elem ''h2'' [] [Text ''Skills: '', Text (join '', '' (skills_cell st))]"
  by (simp add: InputHandling_def Let_def)

lemma change_checkbox_eq:
  "i < 5 \<Longrightarrow> change_checkbox i c st
     = onHandleChange (skills_cell st)
         \<lparr>target_value = [''NextJs15'', ''React19'', ''VueJs'', ''NodeJs'', ''MongoDB''] ! i,
          target_checked = c\<rparr> st"
  by (auto simp add: change_checkbox_def checkboxes_InputHandling fire_def get_prop_def less_Suc_eq numeral_eq_Suc Let_def)

lemma label_for_boxes:
  "i < 5 \<Longrightarrow> label_for (InputHandling st) (checkboxes (InputHandling st) ! i)
     = [[''NextJs'', ''React'', ''Vue.js'', ''Node.js'', ''MongoDB''] ! i]"
  by (auto simp add: label_for_def checkboxes_InputHandling get_prop_def less_Suc_eq numeral_eq_Suc)
   (simp_all add: InputHandling_def Let_def get_prop_def)

text \<open>
  Claim C2 as stated fails: the first checkbox is labelled NextJs, and ticking it in
  the initial state appends its \<open>value\<close> attribute NextJs15, not the label.
\<close>

theorem checkbox_label_counterexample:
  "label_for (InputHandling InputHandling_initial)
       (checkboxes (InputHandling InputHandling_initial) ! 0) = [''NextJs'']
   \<and> skills_cell (change_checkbox 0 True InputHandling_initial) = [''NextJs15'']
   \<and> skills_cell (change_checkbox 0 True InputHandling_initial)
        \<noteq> skills_cell InputHandling_initial @ [''NextJs'']"
  using label_for_boxes [of 0 InputHandling_initial] change_checkbox_eq [of 0 True InputHandling_initial]
  by (simp add: onHandleChange_def InputHandling_initial_def)

text \<open>
  Claim C2, amended. For each of the five checkboxes and every change event
  dispatched to it: if the box became checked, the event's \<open>target.value\<close> is
  appended to the end of the skills list; if it became unchecked, every occurrence of
  that value is removed and the remaining entries keep their order; gender and city are
  untouched; and the first \<open>h2\<close> of the next render is the text Skills: followed
  by the list joined with a comma and a space. The value the browser puts into the
  event is the box's \<open>value\<close> attribute (NextJs15, React19, VueJs, NodeJs,
  MongoDB).
\<close>

theorem checkbox_group_accumulates_values:
  assumes "i < 5"
  shows "(let box = checkboxes (InputHandling st) ! i;
              st' = fire ''onChange'' box evt st;
              skill = target_value evt
          in (target_checked evt \<longrightarrow> skills_cell st' = skills_cell st @ [skill])
           \<and> (\<not> target_checked evt \<longrightarrow>
                skills_cell st' = filter (\<lambda>s. s \<noteq> skill) (skills_cell st)
              \<and> skill \<notin> set (skills_cell st')
              \<and> subseq (skills_cell st') (skills_cell st))
           \<and> gender_cell st' = gender_cell st \<and> city_cell st' = city_cell st
           \<and> find_elems ''h2'' (InputHandling st') ! 0
               = Elem ''h2'' [] [Text ''Skills: '', Text (join '', '' (skills_cell st'))]
           \<and> get_prop ''value'' box
               = Some (PStr ([''NextJs15'', ''React19'', ''VueJs'', ''NodeJs'', ''MongoDB''] ! i))
           \<and> change_checkbox i (target_checked evt) st
               = fire ''onChange'' box
                   (evt\<lparr>target_value :=
                          [''NextJs15'', ''React19'', ''VueJs'', ''NodeJs'', ''MongoDB''] ! i\<rparr>) st)"
proof -
  have v: "get_prop ''value'' (checkboxes (InputHandling st) ! i)
             = Some (PStr ([''NextJs15'', ''React19'', ''VueJs'', ''NodeJs'', ''MongoDB''] ! i))"
    using assms
    by (auto simp add: checkboxes_InputHandling get_prop_def less_Suc_eq numeral_eq_Suc)
  show ?thesis
    using assms v
    by (simp add: Let_def fire_checkbox skills_line change_checkbox_eq onHandleChange_def)
qed

text \<open>
  The theorem at the third checkbox: ticked in the initial state, and unticked in a
  state that lists three skills.
\<close>

theorem checkbox_group_accumulates_values_witness:
  "(2::nat) < 5
   \<and> skills_cell (fire ''onChange'' (checkboxes (InputHandling InputHandling_initial) ! 2)
        \<lparr>target_value = ''VueJs'', target_checked = True\<rparr> InputHandling_initial) = [''VueJs'']
   \<and> skills_cell (fire ''onChange''
        (checkboxes (InputHandling (InputHandling_initial\<lparr>skills_cell := [''React19'', ''VueJs'', ''NodeJs'']\<rparr>)) ! 2)
        \<lparr>target_value = ''VueJs'', target_checked = False\<rparr>
        (InputHandling_initial\<lparr>skills_cell := [''React19'', ''VueJs'', ''NodeJs'']\<rparr>))
       = [''React19'', ''NodeJs'']"
proof -
  have h: "(2::nat) < 5" by simp
  show ?thesis
    using h
      checkbox_group_accumulates_values [OF h, of InputHandling_initial
        "\<lparr>target_value = ''VueJs'', target_checked = True\<rparr>"]
      checkbox_group_accumulates_values [OF h,
        of "InputHandling_initial\<lparr>skills_cell := [''React19'', ''VueJs'', ''NodeJs'']\<rparr>"
        "\<lparr>target_value = ''VueJs'', target_checked = False\<rparr>"]
    by (simp add: Let_def InputHandling_initial_def)
qed

section \<open>Properties of useFetch\<close>

text \<open>
  Claim C3 as stated fails once the effect has run before (the \<open>url\<close> changed):
  a fetch that rejects after an earlier one stored a result leaves that result in
  \<open>data\<close>, not \<open>null\<close>; a fetch that succeeds after an earlier one failed
  leaves the earlier message in \<open>error\<close>, not \<open>null\<close>.
\<close>

theorem useFetch_refetch_counterexample:
  "data (fetchData (Rejected \<lparr>message = ''Failed to fetch''\<rparr>)
           (useFetch [Fulfilled \<lparr>ok = True, json = Fulfilled (Some (1::int))\<rparr>])) = Some 1
   \<and> error (fetchData (Fulfilled \<lparr>ok = True, json = Fulfilled (Some (1::int))\<rparr>)
           (useFetch [Rejected \<lparr>message = ''Failed to fetch''\<rparr>])) = Some ''Failed to fetch''"
  by (simp add: useFetch_def fetchData_def fetchData_try_def useFetch_initial_def)

text \<open>
  Claim C3, amended. Whatever the cells hold when \<open>fetchData\<close> runs: if the fetch
  rejects, or resolves with a response that is not ok, or the body of an ok response
  fails to parse, the error is caught, \<open>error\<close> becomes its message (the fixed
  text for a response that is not ok), \<open>loading\<close> becomes false and \<open>data\<close>
  is left as it was; if the response is ok and its body parses, \<open>data\<close> becomes
  the parsed result, \<open>loading\<close> becomes false and \<open>error\<close> is left as it
  was. In the first fetch of the hook the cell left as it was holds its initial
  \<open>null\<close>.
\<close>

theorem useFetch_failure_and_success:
  "(let st' = fetchData (Rejected e) st
    in error st' = Some (message e) \<and> loading st' = False \<and> data st' = data st)
   \<and> (\<not> ok r \<longrightarrow>
        (let st' = fetchData (Fulfilled r) st
         in error st' = Some ''Network response was not ok'' \<and> loading st' = False
            \<and> data st' = data st))
   \<and> (ok r \<and> json r = Rejected e \<longrightarrow>
        (let st' = fetchData (Fulfilled r) st
         in error st' = Some (message e) \<and> loading st' = False \<and> data st' = data st))
   \<and> (ok r \<and> json r = Fulfilled result \<longrightarrow>
        (let st' = fetchData (Fulfilled r) st
         in data st' = result \<and> loading st' = False \<and> error st' = error st))
   \<and> data (useFetch [Rejected e]) = None
   \<and> (\<not> ok r \<longrightarrow> data (useFetch [Fulfilled r]) = None)
   \<and> (ok r \<and> json r = Fulfilled result \<longrightarrow> error (useFetch [Fulfilled r]) = None)"
  by (simp add: useFetch_def fetchData_def fetchData_try_def useFetch_initial_def Let_def)

text \<open>
  The theorem at a first fetch answered by a response that is not ok, by an ok
  response with a body, and by an ok response whose body does not parse.
\<close>

theorem useFetch_failure_and_success_witness:
  "useFetch [Fulfilled \<lparr>ok = False, json = Fulfilled (Some (1::int))\<rparr>]
     = \<lparr>data = None, error = Some ''Network response was not ok'', loading = False\<rparr>
   \<and> useFetch [Fulfilled \<lparr>ok = True, json = Fulfilled (Some (1::int))\<rparr>]
     = \<lparr>data = Some 1, error = None, loading = False\<rparr>
   \<and> useFetch [Fulfilled \<lparr>ok = True, json = Rejected \<lparr>message = ''Unexpected token''\<rparr>\<rparr>]
     = \<lparr>data = None :: int option, error = Some ''Unexpected token'', loading = False\<rparr>"
  using useFetch_failure_and_success
          [of "\<lparr>message = ''x''\<rparr>" useFetch_initial
              "\<lparr>ok = False, json = Fulfilled (Some (1::int))\<rparr>" "Some 1"]
        useFetch_failure_and_success
          [of "\<lparr>message = ''x''\<rparr>" useFetch_initial
              "\<lparr>ok = True, json = Fulfilled (Some (1::int))\<rparr>" "Some 1"]
        useFetch_failure_and_success
          [of "\<lparr>message = ''Unexpected token''\<rparr>" "useFetch_initial :: int use_fetch_state"
              "\<lparr>ok = True, json = Rejected \<lparr>message = ''Unexpected token''\<rparr>\<rparr>" "None"]
  by (simp add: useFetch_def Let_def useFetch_initial_def fetchData_def fetchData_try_def)

section \<open>Properties of DigitalClock\<close>

lemma clock_run_window: "snd (clock_run (m, w) evs) = w"
  unfolding clock_run_def
proof (induction evs arbitrary: m)
  case Nil
  show ?case by simp
next
  case (Cons ev evs)
  show ?case
    by (cases ev) (simp_all add: Cons.IH split: option.split)
qed

lemma clock_run_cleanup: "cleanup (fst (clock_run (m, w) evs)) = cleanup m"
  unfolding clock_run_def
proof (induction evs arbitrary: m)
  case Nil
  show ?case by simp
next
  case (Cons ev evs)
  show ?case
    by (cases ev) (simp_all add: Cons.IH split: option.split)
qed

lemma filter_fresh:
  "fresh_handles w \<Longrightarrow> filter (\<lambda>t. handle t \<noteq> next_handle w) (intervals w) = intervals w"
  by (auto simp add: fresh_handles_def list_all_iff filter_id_conv)

lemma find_fresh:
  "fresh_handles w \<Longrightarrow> find (\<lambda>t. handle t = next_handle w) (intervals w) = None"
  by (auto simp add: fresh_handles_def list_all_iff find_None_iff)

lemma find_snoc:
  "find P (xs @ [y]) = (case find P xs of None \<Rightarrow> (if P y then Some y else None) | Some x \<Rightarrow> Some x)"
  by (induction xs) simp_all

lemma mount_eq:
  "mount now w =
     (\<lparr>cells = \<lparr>currTime = now\<rparr>, cleanup = clearInterval (next_handle w)\<rparr>,
      w\<lparr>next_handle := Suc (next_handle w),
        intervals := intervals w @
          [\<lparr>handle = next_handle w, callback = (\<lambda>now st. st\<lparr>currTime := now\<rparr>), delay = 1000\<rparr>]\<rparr>)"
  by (simp add: mount_def DigitalClock_effect_def setInterval_def)

text \<open>
  Claim C4. In a window whose handles are fresh, mounting DigitalClock registers
  exactly one more interval timer, with delay 1000, whose callback replaces
  \<open>currTime\<close> by the system time string read when it runs; whatever timers come
  due and however often the component is rendered again, no further timer is
  registered; the cleanup run on unmount is \<open>clearInterval\<close> of that same handle,
  after which the window's timers are those it had before the mount, none has the
  clock's handle, and the clock's timer coming due does nothing. The schedule on which
  the browser lets a timer come due is not part of the model.
\<close>

theorem DigitalClock_timer_lifecycle:
  assumes "fresh_handles w"
  shows "(let (m, w1) = mount now w;
              (m', w') = clock_run (m, w1) evs;
              w'' = unmount m' w'
          in (\<exists>t. intervals w1 = intervals w @ [t] \<and> delay t = 1000 \<and> handle t = next_handle w
                  \<and> (\<forall>reading st. callback t reading st = st\<lparr>currTime := reading\<rparr>))
           \<and> currTime (cells (fst (clock_step (m', w') (TimerDue (next_handle w) reading2)))) = reading2
           \<and> intervals w' = intervals w1
           \<and> unmount m' = clearInterval (next_handle w)
           \<and> intervals w'' = intervals w
           \<and> find (\<lambda>t. handle t = next_handle w) (intervals w'') = None
           \<and> clock_step (m', w'') (TimerDue (next_handle w) reading2) = (m', w''))"
proof -
  obtain m' w' where run: "clock_run (mount now w) evs = (m', w')"
    by (cases "clock_run (mount now w) evs")
  have w': "w' = snd (mount now w)"
    using clock_run_window [of "fst (mount now w)" "snd (mount now w)" evs] run by simp
  have c: "cleanup m' = clearInterval (next_handle w)"
    using clock_run_cleanup [of "fst (mount now w)" "snd (mount now w)" evs] run
    by (simp add: mount_eq)
  have f: "find (\<lambda>t. handle t = next_handle w) (intervals w) = None"
    using assms by (rule find_fresh)
  have g: "filter (\<lambda>t. handle t \<noteq> next_handle w) (intervals w) = intervals w"
    using assms by (rule filter_fresh)
  have u: "unmount m' = clearInterval (next_handle w)"
    using c by (simp add: unmount_def fun_eq_iff)
  show ?thesis
    using run
    by (simp add: mount_eq u w' clearInterval_def f g find_snoc)
qed

text \<open>
  The theorem in a window without timers: mounted at 10:00:00, one tick, one more
  render, unmounted.
\<close>

theorem DigitalClock_timer_lifecycle_witness:
  "fresh_handles \<lparr>next_handle = 1, intervals = []\<rparr>
   \<and> (let (m, w1) = mount ''10:00:00'' \<lparr>next_handle = 1, intervals = []\<rparr>;
           (m', w') = clock_run (m, w1) [TimerDue 1 ''10:00:01'', Rerender ''blue'']
       in currTime (cells m) = ''10:00:00''
        \<and> currTime (cells m') = ''10:00:01''
        \<and> map handle (intervals w') = [1]
        \<and> map delay (intervals w') = [1000]
        \<and> intervals (unmount m' w') = []
        \<and> clock_step (m', unmount m' w') (TimerDue 1 ''10:00:02'') = (m', unmount m' w'))"
proof -
  have h: "fresh_handles \<lparr>next_handle = 1, intervals = []\<rparr>"
    by (simp add: fresh_handles_def)
  show ?thesis
    using h DigitalClock_timer_lifecycle [OF h, of "''10:00:00''"
              "[TimerDue 1 ''10:00:01'', Rerender ''blue'']" "''10:00:02''"]
    by (simp add: mount_eq clock_run_def unmount_def clearInterval_def)
qed

section \<open>Properties of the submit buttons\<close>

text \<open>
  Claim C5. For either value of the pending flag, CustomForm (alone and inside
  UseFormStatus) and UseTransition render exactly one button, and its
  \<open>disabled\<close> property is the pending flag.
\<close>

theorem submit_button_disabled_iff_pending:
  "button_states (CustomForm pending) = [Some (PBool pending)]
   \<and> button_states (UseFormStatus pending) = [Some (PBool pending)]
   \<and> button_states (UseTransition pending) = [Some (PBool pending)]"
  by (simp add: button_states_def CustomForm_def UseFormStatus_def UseTransition_def get_prop_def)

text \<open>
  Claim C6. The label of that button is Submitting... when pending is true and Submit
  when it is false, and never anything else.
\<close>

theorem submit_button_label_two_strings:
  "button_labels (CustomForm pending) = [if pending then ''Submitting...'' else ''Submit'']
   \<and> button_labels (UseFormStatus pending) = [if pending then ''Submitting...'' else ''Submit'']
   \<and> button_labels (UseTransition pending) = [if pending then ''Submitting...'' else ''Submit'']
   \<and> set (button_labels (CustomForm pending)) \<subseteq> {''Submitting...'', ''Submit''}
   \<and> set (button_labels (UseFormStatus pending)) \<subseteq> {''Submitting...'', ''Submit''}
   \<and> set (button_labels (UseTransition pending)) \<subseteq> {''Submitting...'', ''Submit''}"
  by (simp add: button_labels_def CustomForm_def UseFormStatus_def UseTransition_def)

section \<open>Properties of the context demo\<close>

text \<open>
  Claim C7. SubjectComp renders the text Subject: followed by the context value it
  reads; in the tree ParentCtxt renders, the only paragraph is SubjectComp's and the
  value in it is the string held in the \<open>subject\<close> cell: the empty string
  initially, the selected entry after a selection, the empty string again after the
  reset button.
\<close>

theorem context_value_reaches_SubjectComp:
  "find_elems ''p'' (SubjectComp ctxt :: parent_ctxt_state node)
     = [Elem ''p'' [] [Text ''Subject:'', Text ctxt]]
   \<and> find_elems ''p'' (ParentCtxt st) = [Elem ''p'' [] [Text ''Subject:'', Text (subject_cell st)]]
   \<and> find_elems ''p'' (ParentCtxt ParentCtxt_initial) = [Elem ''p'' [] [Text ''Subject:'', Text []]]
   \<and> find_elems ''p'' (ParentCtxt (select_subject v st)) = [Elem ''p'' [] [Text ''Subject:'', Text v]]
   \<and> find_elems ''p'' (ParentCtxt (click_reset evt st)) = [Elem ''p'' [] [Text ''Subject:'', Text []]]"
  by (simp add: ParentCtxt_def SubjectCtxt_Provider_def College_def ClassComp_def StudentComp_def
      SubjectComp_def ParentCtxt_initial_def select_subject_def click_reset_def fire_def get_prop_def
      Let_def)

section \<open>Properties of ArrayState and ObjectState\<close>

text \<open>
  Claim C9. For a non-empty \<open>hobbies\<close> array and any string \<open>h\<close>,
  \<open>updateLastHobby(h)\<close> stores an array of the same length, whose last element is
  \<open>h\<close> and whose elements before the last are those of the previous array.
\<close>

theorem updateLastHobby_frame:
  assumes "hobbies \<noteq> []"
  shows "(let stored = hobbies_cell (updateLastHobby hobbies h st)
          in length stored = length hobbies
           \<and> last stored = h
           \<and> (\<forall>i < length hobbies - 1. stored ! i = hobbies ! i))"
  using assms
  by (simp add: updateLastHobby_def assign_last_def Let_def last_conv_nth)

text \<open>
  The theorem at the initial hobbies of ArrayState.
\<close>

theorem updateLastHobby_frame_witness:
  "hobbies_cell ArrayState_initial \<noteq> []
   \<and> hobbies_cell (updateLastHobby (hobbies_cell ArrayState_initial) ''Chess'' ArrayState_initial)
       = [''Reading '' @ [CHR 0xF0, CHR 0x9F, CHR 0x93, CHR 0x9A],
          ''Coding '' @ [CHR 0xF0, CHR 0x9F, CHR 0x92, CHR 0xBB],
          ''Chess'']"
proof -
  have h: "hobbies_cell ArrayState_initial \<noteq> []"
    by (simp add: ArrayState_initial_def)
  show ?thesis
    using h updateLastHobby_frame [OF h, of "''Chess''" ArrayState_initial]
    by (simp add: ArrayState_initial_def updateLastHobby_def assign_last_def)
qed

text \<open>
  Claim C10. The change handler of the name input of ObjectState stores a
  \<open>details\<close> object whose \<open>fullName\<close> is the input's text and whose age,
  city, country and skills are those of the previous object; the \<open>name\<close> cell is
  untouched.
\<close>

theorem name_input_changes_fullName_only:
  "(let d = details_cell st; d' = details_cell (change_name_input v st)
    in fullName d' = v
     \<and> age d' = age d
     \<and> city (location d') = city (location d)
     \<and> country (location d') = country (location d)
     \<and> skills d' = skills d
     \<and> d' = d\<lparr>fullName := v\<rparr>)
   \<and> oname_cell (change_name_input v st) = oname_cell st"
  by (simp add: change_name_input_def ObjectState_def fire_def get_prop_def Let_def)

end
